theory Spec2Isabelle
  imports Main
begin

section \<open>JavaScript values\<close>

text \<open>
  The values that cross the boundary between the auth helpers of
  \<^verbatim>\<open>src/lib/supabase/auth.ts\<close> and the SDK: strings, the two empty values,
  booleans, and objects. An object is its list of properties in the order they were
  written; reading a property that is absent gives \<^verbatim>\<open>undefined\<close>.
\<close>

datatype jsval =
    Undefined
  | Null
  | Bool bool
  | Str string
  | Obj "(string \<times> jsval) list"

type_synonym object = "(string \<times> jsval) list"

definition get_prop :: "object \<Rightarrow> string \<Rightarrow> jsval" where
  "get_prop fs k = (case map_of fs k of None \<Rightarrow> Undefined | Some v \<Rightarrow> v)"

text \<open>
  What a promise can be rejected with: the \<^verbatim>\<open>ReferenceError\<close> the runtime
  raises for an identifier that is not defined, or any value thrown by other code.
\<close>

datatype exn =
    ReferenceError string
  | Thrown jsval

text \<open>A settled promise: \<open>Inl\<close> is a rejection, \<open>Inr\<close> the value it resolved to.\<close>

type_synonym 'a promise = "exn + 'a"

section \<open>The environment of the auth helpers\<close>

text \<open>
  The SDK is not part of the repository, so it is a parameter: \<open>auth e c m args\<close> is
  how the promise returned by \<^verbatim>\<open>c.auth.m(...args)\<close> settles. Its TypeScript type
  makes every resolved value an object. \<open>window_origin\<close> is
  \<^verbatim>\<open>window.location.origin\<close>, and \<open>None\<close> where the identifier
  \<^verbatim>\<open>window\<close> is not defined (any run outside a browser).
\<close>

record 'c env =
  new_client :: 'c
  window_origin :: "string option"
  auth :: "'c \<Rightarrow> string \<Rightarrow> jsval list \<Rightarrow> object promise"

text \<open>
  The state of the running process: the backend client handle, once there is one, and
  the SDK calls made so far, oldest first (client, method name, arguments). Each SDK
  call is one outbound request.
\<close>

record 'c process =
  handle :: "'c option"
  calls :: "('c \<times> string \<times> jsval list) list"

text \<open>
  Modelled from the spec: \<^verbatim>\<open>createClient\<close> of \<^verbatim>\<open>src/lib/supabase/client.ts\<close>,
  which is not among the sources. The spec keeps the backend client as a single
  process-wide handle with an explicit initialization step: the first call initializes
  the handle, every call returns it.
\<close>

definition createClient :: "'c env \<Rightarrow> 'c process \<Rightarrow> 'c \<times> 'c process" where
  "createClient e p =
     (case handle p of
        Some c \<Rightarrow> (c, p)
      | None \<Rightarrow> (new_client e, p\<lparr>handle := Some (new_client e)\<rparr>))"

text \<open>\<^verbatim>\<open>await c.auth.m(...args)\<close>: the call is recorded and its settlement returned.\<close>

definition auth_call ::
  "'c env \<Rightarrow> 'c \<Rightarrow> string \<Rightarrow> jsval list \<Rightarrow> 'c process \<Rightarrow> object promise \<times> 'c process" where
  "auth_call e c m args p = (auth e c m args, p\<lparr>calls := calls p @ [(c, m, args)]\<rparr>)"

text \<open>
  \<^verbatim>\<open>const { data, error } = await ...; return { data, error };\<close> A rejected
  promise makes \<^verbatim>\<open>await\<close> throw, which rejects the helper's own promise with the
  same value; otherwise the two properties are read from the response and a new object
  is built from them.
\<close>

definition data_and_error :: "object promise \<Rightarrow> object promise" where
  "data_and_error r =
     (case r of
        Inl x \<Rightarrow> Inl x
      | Inr res \<Rightarrow> Inr [(''data'', get_prop res ''data''), (''error'', get_prop res ''error'')])"

text \<open>\<^verbatim>\<open>const { error } = await ...; return { error };\<close>\<close>

definition error_only :: "object promise \<Rightarrow> object promise" where
  "error_only r =
     (case r of
        Inl x \<Rightarrow> Inl x
      | Inr res \<Rightarrow> Inr [(''error'', get_prop res ''error'')])"

section \<open>The auth helpers\<close>

datatype provider = Google | Github | Discord

fun provider_str :: "provider \<Rightarrow> string" where
  "provider_str Google = ''google''"
| "provider_str Github = ''github''"
| "provider_str Discord = ''discord''"

definition signInWithEmail ::
  "string \<Rightarrow> string \<Rightarrow> 'c env \<Rightarrow> 'c process \<Rightarrow> object promise \<times> 'c process" where
  "signInWithEmail email password e p =
     (let (supabase, p1) = createClient e p;
          (r, p2) = auth_call e supabase ''signInWithPassword''
                      [Obj [(''email'', Str email), (''password'', Str password)]] p1
      in (data_and_error r, p2))"

definition signUpWithEmail ::
  "string \<Rightarrow> string \<Rightarrow> 'c env \<Rightarrow> 'c process \<Rightarrow> object promise \<times> 'c process" where
  "signUpWithEmail email password e p =
     (let (supabase, p1) = createClient e p;
          (r, p2) = auth_call e supabase ''signUp''
                      [Obj [(''email'', Str email), (''password'', Str password)]] p1
      in (data_and_error r, p2))"

definition signOut :: "'c env \<Rightarrow> 'c process \<Rightarrow> object promise \<times> 'c process" where
  "signOut e p =
     (let (supabase, p1) = createClient e p;
          (r, p2) = auth_call e supabase ''signOut'' [] p1
      in (error_only r, p2))"

text \<open>
  The argument object is built after \<^verbatim>\<open>createClient()\<close> has returned and before
  the SDK method is entered, so where \<^verbatim>\<open>window\<close> is not defined the template
  literal throws and no call is made.
\<close>

definition signInWithOAuth ::
  "provider \<Rightarrow> 'c env \<Rightarrow> 'c process \<Rightarrow> object promise \<times> 'c process" where
  "signInWithOAuth provider e p =
     (let (supabase, p1) = createClient e p
      in case window_origin e of
           None \<Rightarrow> (Inl (ReferenceError ''window is not defined''), p1)
         | Some origin \<Rightarrow>
             (let (r, p2) = auth_call e supabase ''signInWithOAuth''
                      [Obj [(''provider'', Str (provider_str provider)),
                            (''options'', Obj [(''redirectTo'', Str (origin @ ''/auth/callback''))])]] p1
              in (data_and_error r, p2)))"

definition resetPassword ::
  "string \<Rightarrow> 'c env \<Rightarrow> 'c process \<Rightarrow> object promise \<times> 'c process" where
  "resetPassword email e p =
     (let (supabase, p1) = createClient e p
      in case window_origin e of
           None \<Rightarrow> (Inl (ReferenceError ''window is not defined''), p1)
         | Some origin \<Rightarrow>
             (let (r, p2) = auth_call e supabase ''resetPasswordForEmail''
                      [Str email,
                       Obj [(''redirectTo'', Str (origin @ ''/auth/reset-password''))]] p1
              in (data_and_error r, p2)))"

definition updatePassword ::
  "string \<Rightarrow> 'c env \<Rightarrow> 'c process \<Rightarrow> object promise \<times> 'c process" where
  "updatePassword password e p =
     (let (supabase, p1) = createClient e p;
          (r, p2) = auth_call e supabase ''updateUser''
                      [Obj [(''password'', Str password)]] p1
      in (data_and_error r, p2))"

text \<open>
  One invocation of an exported helper, with the arguments the caller passes, so that
  a statement can range over all six.
\<close>

datatype wrapper =
    SignInWithEmail string string
  | SignUpWithEmail string string
  | SignOut
  | SignInWithOAuth provider
  | ResetPassword string
  | UpdatePassword string

fun invoke :: "wrapper \<Rightarrow> 'c env \<Rightarrow> 'c process \<Rightarrow> object promise \<times> 'c process" where
  "invoke (SignInWithEmail email password) = signInWithEmail email password"
| "invoke (SignUpWithEmail email password) = signUpWithEmail email password"
| "invoke SignOut = signOut"
| "invoke (SignInWithOAuth provider) = signInWithOAuth provider"
| "invoke (ResetPassword email) = resetPassword email"
| "invoke (UpdatePassword password) = updatePassword password"

fun wrapper_args :: "wrapper \<Rightarrow> jsval list" where
  "wrapper_args (SignInWithEmail email password) = [Str email, Str password]"
| "wrapper_args (SignUpWithEmail email password) = [Str email, Str password]"
| "wrapper_args SignOut = []"
| "wrapper_args (SignInWithOAuth provider) = [Str (provider_str provider)]"
| "wrapper_args (ResetPassword email) = [Str email]"
| "wrapper_args (UpdatePassword password) = [Str password]"

section \<open>The home page\<close>

text \<open>
  A React element as JSX builds it: the element type (a tag or the name of a
  component), the props as written, and the children. A component element such as
  \<^verbatim>\<open><Button asChild>\<close> is a description; building it does not run the component.
  JSX text is trimmed line by line and joined with single spaces.
\<close>

datatype element =
    Text string
  | Elem string "(string \<times> jsval) list" "element list"

text \<open>
  \<^verbatim>\<open>Home\<close> of \<^verbatim>\<open>src/app/page.tsx\<close>. It takes no props, reads nothing and calls
  nothing, so as a function on the process state it returns the state it was given.
\<close>

definition Home :: "'c process \<Rightarrow> element \<times> 'c process" where
  "Home p =
    (Elem ''div'' [(''className'', Str ''flex min-h-screen flex-col items-center justify-center bg-background p-8'')]
      [Elem ''main'' [(''className'', Str ''flex max-w-4xl flex-col items-center gap-8'')]
        [Elem ''div'' [(''className'', Str ''text-center'')]
          [Elem ''h1'' [(''className'', Str ''text-4xl font-bold tracking-tight'')]
             [Text ''Next.js + Supabase Starter''],
           Elem ''p'' [(''className'', Str ''mt-4 text-lg text-muted-foreground'')]
             [Text ''A modern starter template with authentication ready to go'']],
         Elem ''div'' [(''className'', Str ''grid gap-6 md:grid-cols-3'')]
          [Elem ''Card'' []
            [Elem ''CardHeader'' []
              [Elem ''CardTitle'' [] [Text ''Next.js 15''],
               Elem ''CardDescription'' [] [Text ''App Router, Server Components, and Turbopack'']],
             Elem ''CardContent'' []
              [Elem ''p'' [(''className'', Str ''text-sm text-muted-foreground'')]
                 [Text ''Built on the latest Next.js with TypeScript support'']]],
           Elem ''Card'' []
            [Elem ''CardHeader'' []
              [Elem ''CardTitle'' [] [Text ''Supabase Auth''],
               Elem ''CardDescription'' [] [Text ''Email, OAuth, and magic links'']],
             Elem ''CardContent'' []
              [Elem ''p'' [(''className'', Str ''text-sm text-muted-foreground'')]
                 [Text ''Pre-configured authentication with session management'']]],
           Elem ''Card'' []
            [Elem ''CardHeader'' []
              [Elem ''CardTitle'' [] [Text ''shadcn/ui''],
               Elem ''CardDescription'' [] [Text ''Beautiful, accessible components'']],
             Elem ''CardContent'' []
              [Elem ''p'' [(''className'', Str ''text-sm text-muted-foreground'')]
                 [Text ''Customizable components built with Radix and Tailwind'']]]],
         Elem ''div'' [(''className'', Str ''flex gap-4'')]
          [Elem ''Button'' [(''asChild'', Bool True)]
            [Elem ''a'' [(''href'', Str ''/login'')] [Text ''Get Started'']],
           Elem ''Button'' [(''variant'', Str ''outline''), (''asChild'', Bool True)]
            [Elem ''a'' [(''href'', Str ''https://github.com''),
                         (''target'', Str ''_blank''),
                         (''rel'', Str ''noopener noreferrer'')]
               [Text ''View on GitHub'']]]]],
     p)"

text \<open>The targets of the anchors of a tree, in document order.\<close>

fun links :: "element \<Rightarrow> jsval list" where
  "links (Text t) = []"
| "links (Elem tag props kids) =
     (if tag = ''a'' then [get_prop props ''href''] else []) @ concat (map links kids)"

section \<open>The Docker bootstrap script\<close>

text \<open>
  What the script of \<^verbatim>\<open>src/unnamed/part_007\<close> meets on the machine it runs on.
  Docker is not part of the repository: the exit status of each of its commands is a
  parameter, and a listing is given by the containers it shows. Only the columns of
  \<^verbatim>\<open>docker ps\<close> that hold free text are kept.
\<close>

record container =
  cid :: string
  cimage :: string
  ccommand :: string
  cname :: string

record host =
  docker_installed :: bool
  listed_all :: "container list"
  stop_status :: nat
  rm_status :: nat
  mkdir_status :: nat
  run_status :: nat
  listed_running :: "container list"

text \<open>
  \<open>listed_all\<close> is what \<^verbatim>\<open>docker ps -a\<close> shows when the script starts,
  \<open>listed_running\<close> what \<^verbatim>\<open>docker ps\<close> shows after the start and the sleep.
\<close>

definition ps_line :: "container \<Rightarrow> string" where
  "ps_line c = cid c @ ''   '' @ cimage c @ ''   '' @ ccommand c @ ''   '' @ cname c"

definition docker_ps :: "container list \<Rightarrow> string list" where
  "docker_ps cs = ''CONTAINER ID   IMAGE   COMMAND   NAMES'' # map ps_line cs"

text \<open>
  \<^verbatim>\<open>grep -q PATTERN\<close> for a pattern without special characters: it succeeds when
  some line of its input holds the pattern as a substring.
\<close>

fun contains :: "string \<Rightarrow> string \<Rightarrow> bool" where
  "contains pat [] = (pat = [])"
| "contains pat (c # cs) = (take (length pat) (c # cs) = pat \<or> contains pat cs)"

definition grep_q :: "string \<Rightarrow> string list \<Rightarrow> bool" where
  "grep_q pat ls = list_ex (contains pat) ls"

text \<open>
  What an execution does that can be seen from outside: the lines it echoes and the
  commands it runs (the flag says that the command's output goes to
  \<^verbatim>\<open>/dev/null\<close>). \<open>exited\<close> is the status the shell has exited with, if it has.
\<close>

datatype event =
    Echo string
  | Exec "string list" bool

record sh =
  events :: "event list"
  exited :: "nat option"

definition echo :: "string \<Rightarrow> sh \<Rightarrow> sh" where
  "echo l s = s\<lparr>events := events s @ [Echo l]\<rparr>"

text \<open>A simple command under \<^verbatim>\<open>set -e\<close>: a nonzero status ends the shell with it.\<close>

definition simple :: "string list \<Rightarrow> bool \<Rightarrow> nat \<Rightarrow> sh \<Rightarrow> sh" where
  "simple argv quiet st s =
     s\<lparr>events := events s @ [Exec argv quiet],
       exited := (if st = 0 then None else Some st)\<rparr>"

text \<open>The commands of an \<^verbatim>\<open>if\<close> condition run, and their status never ends the shell.\<close>

definition tested :: "string list list \<Rightarrow> bool \<Rightarrow> sh \<Rightarrow> sh" where
  "tested cmds quiet s = s\<lparr>events := events s @ map (\<lambda>argv. Exec argv quiet) cmds\<rparr>"

definition exit_sh :: "nat \<Rightarrow> sh \<Rightarrow> sh" where
  "exit_sh n s = s\<lparr>exited := Some n\<rparr>"

text \<open>Commands run in the order written, until one of them ends the shell.\<close>

fun run_steps :: "(sh \<Rightarrow> sh) list \<Rightarrow> sh \<Rightarrow> sh" where
  "run_steps [] s = s"
| "run_steps (step # rest) s =
     (case exited (step s) of
        None \<Rightarrow> run_steps rest (step s)
      | Some n \<Rightarrow> step s)"

definition branch :: "bool \<Rightarrow> (sh \<Rightarrow> sh) list \<Rightarrow> (sh \<Rightarrow> sh) list \<Rightarrow> sh \<Rightarrow> sh" where
  "branch b yes no s = run_steps (if b then yes else no) s"

text \<open>A script that reaches its last line exits with the status of its last command.\<close>

definition finish :: "sh \<Rightarrow> event list \<times> nat" where
  "finish s = (events s, case exited s of None \<Rightarrow> 0 | Some n \<Rightarrow> n)"

text \<open>The emoji that open the script's messages, as their UTF-8 bytes.\<close>

definition rocket :: string where
  "rocket = [CHR 0xF0, CHR 0x9F, CHR 0x9A, CHR 0x80]"

definition cross :: string where
  "cross = [CHR 0xE2, CHR 0x9D, CHR 0x8C]"

definition warning :: string where
  "warning = [CHR 0xE2, CHR 0x9A, CHR 0xA0, CHR 0xEF, CHR 0xB8, CHR 0x8F]"

definition folder :: string where
  "folder = [CHR 0xF0, CHR 0x9F, CHR 0x93, CHR 0x81]"

definition whale :: string where
  "whale = [CHR 0xF0, CHR 0x9F, CHR 0x90, CHR 0xB3]"

definition check_mark :: string where
  "check_mark = [CHR 0xE2, CHR 0x9C, CHR 0x85]"

definition globe :: string where
  "globe = [CHR 0xF0, CHR 0x9F, CHR 0x8C, CHR 0x90]"

definition book :: string where
  "book = [CHR 0xF0, CHR 0x9F, CHR 0x93, CHR 0x96]"

definition hourglass :: string where
  "hourglass = [CHR 0xE2, CHR 0x8F, CHR 0xB3]"

text \<open>The configuration of lines 11 to 13.\<close>

definition CONTAINER_NAME :: string where
  "CONTAINER_NAME = ''pocketbase''"

definition PORT :: string where
  "PORT = ''8090''"

definition DATA_DIR :: string where
  "DATA_DIR = ''./pb_data''"

text \<open>The lines the script echoes, in the order of the source, variables expanded.\<close>

definition setting_up_msg :: string where
  "setting_up_msg = rocket @ '' Setting up PocketBase with Docker...''"

definition rule_msg :: string where
  "rule_msg = ''========================================''"

definition docker_missing_msg :: string where
  "docker_missing_msg = cross @ '' Docker is not installed. Please install Docker first.''"

definition visit_msg :: string where
  "visit_msg = ''   Visit: https://docs.docker.com/get-docker/''"

definition stopping_msg :: string where
  "stopping_msg = warning @ ''  Stopping existing PocketBase container...''"

definition creating_dir_msg :: string where
  "creating_dir_msg = folder @ '' Creating data directory: '' @ DATA_DIR"

definition starting_msg :: string where
  "starting_msg = whale @ '' Starting PocketBase container...''"

definition starting_up_msg :: string where
  "starting_up_msg = check_mark @ '' PocketBase is starting up!''"

definition admin_ui_msg :: string where
  "admin_ui_msg = globe @ '' Admin UI: http://localhost:'' @ PORT @ ''/_/''"

definition api_docs_msg :: string where
  "api_docs_msg = book @ '' API Docs: http://localhost:'' @ PORT @ ''/api/docs''"

definition data_dir_msg :: string where
  "data_dir_msg = folder @ '' Data directory: '' @ DATA_DIR"

definition view_logs_msg :: string where
  "view_logs_msg = ''To view logs: docker logs -f '' @ CONTAINER_NAME"

definition to_stop_msg :: string where
  "to_stop_msg = ''To stop: docker stop '' @ CONTAINER_NAME"

definition waiting_msg :: string where
  "waiting_msg = hourglass @ '' Waiting for PocketBase to be ready...''"

definition running_msg :: string where
  "running_msg = check_mark @ '' PocketBase is running successfully!''"

definition went_wrong_msg :: string where
  "went_wrong_msg =
     cross @ '' Something went wrong. Check logs with: docker logs '' @ CONTAINER_NAME"

text \<open>The commands the script runs, as argument vectors, variables expanded.\<close>

definition command_v_argv :: "string list" where
  "command_v_argv = [''command'', ''-v'', ''docker'']"

definition docker_ps_a_argv :: "string list" where
  "docker_ps_a_argv = [''docker'', ''ps'', ''-a'']"

definition docker_ps_argv :: "string list" where
  "docker_ps_argv = [''docker'', ''ps'']"

definition grep_argv :: "string list" where
  "grep_argv = [''grep'', ''-q'', CONTAINER_NAME]"

definition docker_stop_argv :: "string list" where
  "docker_stop_argv = [''docker'', ''stop'', CONTAINER_NAME]"

definition docker_rm_argv :: "string list" where
  "docker_rm_argv = [''docker'', ''rm'', CONTAINER_NAME]"

definition mkdir_argv :: "string list" where
  "mkdir_argv = [''mkdir'', ''-p'', DATA_DIR]"

definition docker_run_argv :: "string list" where
  "docker_run_argv =
     [''docker'', ''run'', ''-d'',
      ''--name'', CONTAINER_NAME,
      ''-p'', PORT @ '':8090'',
      ''-v'', DATA_DIR @ '':/pb/pb_data'',
      ''ghcr.io/pocketbase/pocketbase:latest'', ''serve'', ''--http=0.0.0.0:8090'']"

definition sleep_argv :: "string list" where
  "sleep_argv = [''sleep'', ''3'']"

text \<open>
  The script, line by line. \<^verbatim>\<open>echo\<close> and \<^verbatim>\<open>sleep\<close> are taken to succeed. In a
  pipeline both commands run and the status is that of \<^verbatim>\<open>grep\<close>.
\<close>

definition docker_setup :: "host \<Rightarrow> event list \<times> nat" where
  "docker_setup h = finish (run_steps
     [echo setting_up_msg,
      echo rule_msg,
      tested [command_v_argv] True,
      branch (\<not> docker_installed h)
        [echo docker_missing_msg,
         echo visit_msg,
         exit_sh 1]
        [],
      tested [docker_ps_a_argv, grep_argv] False,
      branch (grep_q CONTAINER_NAME (docker_ps (listed_all h)))
        [echo stopping_msg,
         simple docker_stop_argv True (stop_status h),
         simple docker_rm_argv True (rm_status h)]
        [],
      echo creating_dir_msg,
      simple mkdir_argv False (mkdir_status h),
      echo starting_msg,
      simple docker_run_argv False (run_status h),
      echo rule_msg,
      echo starting_up_msg,
      echo [],
      echo admin_ui_msg,
      echo api_docs_msg,
      echo data_dir_msg,
      echo [],
      echo view_logs_msg,
      echo to_stop_msg,
      echo [],
      echo waiting_msg,
      simple sleep_argv False 0,
      tested [docker_ps_argv, grep_argv] False,
      branch (grep_q CONTAINER_NAME (docker_ps (listed_running h)))
        [echo running_msg]
        [echo went_wrong_msg,
         exit_sh 1]]
     \<lparr>events = [], exited = None\<rparr>)"

text \<open>The executions of \<^verbatim>\<open>docker run\<close> among the events.\<close>

fun is_docker_run :: "event \<Rightarrow> bool" where
  "is_docker_run (Echo l) = False"
| "is_docker_run (Exec argv quiet) = (take 2 argv = [''docker'', ''run''])"

definition docker_runs :: "event list \<Rightarrow> event list" where
  "docker_runs evs = filter is_docker_run evs"

text \<open>
  The script's own two error messages (lines 17 and 58). What the commands themselves
  write is not part of the events; the flag of \<open>Exec\<close> tells when it is discarded.
\<close>

definition error_printed :: "event list \<Rightarrow> bool" where
  "error_printed evs =
     (Echo docker_missing_msg \<in> set evs \<or> Echo went_wrong_msg \<in> set evs)"

text \<open>The lines the script has echoed, in order.\<close>

fun echoed :: "event list \<Rightarrow> string list" where
  "echoed [] = []"
| "echoed (Echo l # evs) = l # echoed evs"
| "echoed (Exec argv quiet # evs) = echoed evs"

text \<open>
  The stretches of an execution between the commands that can end it: the banner and
  the test for Docker; the listing of all containers; the removal of an earlier
  container, run when that listing holds the container's name; and what follows a
  successful \<^verbatim>\<open>docker run\<close>, up to the listing of the running containers.
\<close>

definition start_events :: "event list" where
  "start_events = [Echo setting_up_msg, Echo rule_msg, Exec command_v_argv True]"

definition listing_events :: "event list" where
  "listing_events = [Exec docker_ps_a_argv False, Exec grep_argv False]"

definition removal_events :: "host \<Rightarrow> event list" where
  "removal_events h =
     (if grep_q CONTAINER_NAME (docker_ps (listed_all h))
      then [Echo stopping_msg, Exec docker_stop_argv True, Exec docker_rm_argv True]
      else [])"

definition announce_events :: "event list" where
  "announce_events =
     [Echo rule_msg, Echo starting_up_msg, Echo [], Echo admin_ui_msg, Echo api_docs_msg,
      Echo data_dir_msg, Echo [], Echo view_logs_msg, Echo to_stop_msg, Echo [],
      Echo waiting_msg, Exec sleep_argv False, Exec docker_ps_argv False,
      Exec grep_argv False]"

text \<open>\<open>a\<close> occurs before the first \<open>b\<close>.\<close>

definition precedes :: "'a \<Rightarrow> 'a \<Rightarrow> 'a list \<Rightarrow> bool" where
  "precedes a b xs = (a \<in> set (takeWhile (\<lambda>x. x \<noteq> b) xs))"

section \<open>Notions used in the statements\<close>

text \<open>
  The SDK method each helper calls, and the two helpers whose argument is built from
  \<^verbatim>\<open>window.location.origin\<close>.
\<close>

fun sdk_method :: "wrapper \<Rightarrow> string" where
  "sdk_method (SignInWithEmail email password) = ''signInWithPassword''"
| "sdk_method (SignUpWithEmail email password) = ''signUp''"
| "sdk_method SignOut = ''signOut''"
| "sdk_method (SignInWithOAuth provider) = ''signInWithOAuth''"
| "sdk_method (ResetPassword email) = ''resetPasswordForEmail''"
| "sdk_method (UpdatePassword password) = ''updateUser''"

fun needs_window :: "wrapper \<Rightarrow> bool" where
  "needs_window (SignInWithOAuth provider) = True"
| "needs_window (ResetPassword email) = True"
| "needs_window w = False"

text \<open>
  The values an argument list carries, in order, whatever objects they are wrapped in
  and under whatever names.
\<close>

fun leaves :: "jsval \<Rightarrow> jsval list" where
  "leaves (Obj fs) = concat (map (\<lambda>(k, v). leaves v) fs)"
| "leaves v = [v]"

text \<open>
  Two settlements are the same outcome when both reject with the same value, or both
  resolve and agree on \<^verbatim>\<open>data\<close> and on \<^verbatim>\<open>error\<close>.
\<close>

definition same_outcome :: "object promise \<Rightarrow> object promise \<Rightarrow> bool" where
  "same_outcome r r' =
     (case r of
        Inl x \<Rightarrow> r' = Inl x
      | Inr obj \<Rightarrow>
          (case r' of
             Inl y \<Rightarrow> False
           | Inr res \<Rightarrow> get_prop obj ''data'' = get_prop res ''data'' \<and>
                       get_prop obj ''error'' = get_prop res ''error''))"

text \<open>
  The helper's arguments under the names of its parameters, as a call that passes them
  in one object does.
\<close>

fun wrapper_params :: "wrapper \<Rightarrow> object" where
  "wrapper_params (SignInWithEmail email password) =
     [(''email'', Str email), (''password'', Str password)]"
| "wrapper_params (SignUpWithEmail email password) =
     [(''email'', Str email), (''password'', Str password)]"
| "wrapper_params SignOut = []"
| "wrapper_params (SignInWithOAuth provider) = [(''provider'', Str (provider_str provider))]"
| "wrapper_params (ResetPassword email) = [(''email'', Str email)]"
| "wrapper_params (UpdatePassword password) = [(''password'', Str password)]"

text \<open>
  The spec's pass-through, in its words: the helper makes one call, to its SDK method,
  with the arguments it was given and nothing else (as they are, or each under its
  parameter's name in one object), and settles as that call does.
\<close>

definition pass_through :: "wrapper \<Rightarrow> 'c env \<Rightarrow> 'c process \<Rightarrow> bool" where
  "pass_through w e p =
     (case drop (length (calls p)) (calls (snd (invoke w e p))) of
        [(c, m, a)] \<Rightarrow>
           m = sdk_method w \<and> (a = wrapper_args w \<or> a = [Obj (wrapper_params w)]) \<and>
           same_outcome (fst (invoke w e p)) (auth e c m a)
      | _ \<Rightarrow> False)"

text \<open>
  What a helper does, said in full: \<open>out\<close>, the result of running it from the process
  \<open>p\<close>, has added exactly one call, on the client of \<^verbatim>\<open>createClient\<close>, of the
  method \<open>m\<close> with the argument list \<open>a\<close>; it rejects as that call rejects, or
  resolves to a new object with the properties \<open>names\<close>, in this order, each read
  from the call's response.
\<close>

definition delegates_once ::
  "object promise \<times> 'c process \<Rightarrow> 'c env \<Rightarrow> 'c process \<Rightarrow> string \<Rightarrow> jsval list \<Rightarrow>
   string list \<Rightarrow> bool" where
  "delegates_once out e p m a names =
     (calls (snd out) = calls p @ [(fst (createClient e p), m, a)] \<and>
      fst out =
        (case auth e (fst (createClient e p)) m a of
           Inl x \<Rightarrow> Inl x
         | Inr res \<Rightarrow> Inr (map (\<lambda>k. (k, get_prop res k)) names)))"

section \<open>Sample environments\<close>

text \<open>
  A stand-in for the SDK: one account, a network failure on \<^verbatim>\<open>updateUser\<close>, and a
  \<^verbatim>\<open>signOut\<close> that resolves with an error field only.
\<close>

definition demo_auth :: "nat \<Rightarrow> string \<Rightarrow> jsval list \<Rightarrow> object promise" where
  "demo_auth c m args =
     (if m = ''signInWithPassword'' then
        (if args = [Obj [(''email'', Str ''ada@example.org''), (''password'', Str ''s3cret'')]]
         then Inr [(''data'', Obj [(''user'', Str ''ada@example.org'')]), (''error'', Null)]
         else Inr [(''data'', Null),
                   (''error'', Obj [(''message'', Str ''Invalid login credentials'')])])
      else if m = ''updateUser'' then Inl (Thrown (Str ''fetch failed''))
      else if m = ''signOut'' then Inr [(''error'', Null)]
      else Inr [(''data'', Obj []), (''error'', Null)])"

definition browser :: "nat env" where
  "browser =
     \<lparr>new_client = 7, window_origin = Some ''http://localhost:3000'', auth = demo_auth\<rparr>"

definition server :: "nat env" where
  "server = \<lparr>new_client = 7, window_origin = None, auth = demo_auth\<rparr>"

text \<open>An SDK whose every response carries data, also that of \<^verbatim>\<open>signOut\<close>.\<close>

definition chatty :: "nat env" where
  "chatty =
     \<lparr>new_client = 7, window_origin = Some ''http://localhost:3000'',
      auth = (\<lambda>c m args. Inr [(''data'', Str ''bye''), (''error'', Null)])\<rparr>"

definition fresh :: "nat process" where
  "fresh = \<lparr>handle = None, calls = []\<rparr>"


text \<open>
  Machines for the Docker script: one without Docker; one where an earlier container
  named \<^verbatim>\<open>pocketbase\<close> exists and everything works; the same where the new
  container is gone after the sleep; the same where \<^verbatim>\<open>docker run\<close> fails (the
  port is taken); and one where a container of the PocketBase image runs under another
  name, so that the listing matches and \<^verbatim>\<open>docker stop pocketbase\<close> finds nothing
  to stop.
\<close>

definition bare_host :: host where
  "bare_host =
     \<lparr>docker_installed = False, listed_all = [],
      stop_status = 0, rm_status = 0, mkdir_status = 0, run_status = 0,
      listed_running = []\<rparr>"

definition used_host :: host where
  "used_host =
     \<lparr>docker_installed = True,
      listed_all = [\<lparr>cid = ''4f1c2a9d0b7e'', cimage = ''ghcr.io/pocketbase/pocketbase:latest'',
                     ccommand = ''/usr/local/bin/pocketbase serve'', cname = ''pocketbase''\<rparr>],
      stop_status = 0, rm_status = 0, mkdir_status = 0, run_status = 0,
      listed_running = [\<lparr>cid = ''77aa2a9d0b7e'', cimage = ''ghcr.io/pocketbase/pocketbase:latest'',
                         ccommand = ''/usr/local/bin/pocketbase serve'', cname = ''pocketbase''\<rparr>]\<rparr>"

definition crashed_host :: host where
  "crashed_host = used_host\<lparr>listed_running := []\<rparr>"

definition busy_host :: host where
  "busy_host = crashed_host\<lparr>run_status := 125\<rparr>"

definition stale_host :: host where
  "stale_host =
     \<lparr>docker_installed = True,
      listed_all = [\<lparr>cid = ''4f1c2a9d0b7e'', cimage = ''ghcr.io/pocketbase/pocketbase:latest'',
                     ccommand = ''/usr/local/bin/pocketbase serve'', cname = ''pb-dev''\<rparr>],
      stop_status = 1, rm_status = 1, mkdir_status = 0, run_status = 0,
      listed_running = []\<rparr>"

section \<open>Auxiliary facts\<close>

lemmas wrapper_defs =
  signInWithEmail_def signUpWithEmail_def signOut_def signInWithOAuth_def
  resetPassword_def updatePassword_def createClient_def auth_call_def

lemmas outcome_defs = data_and_error_def error_only_def get_prop_def

lemmas step_defs = echo_def simple_def tested_def exit_sh_def branch_def finish_def

lemmas argv_defs =
  command_v_argv_def docker_ps_a_argv_def docker_ps_argv_def grep_argv_def
  docker_stop_argv_def docker_rm_argv_def mkdir_argv_def docker_run_argv_def sleep_argv_def

lemmas msg_defs =
  setting_up_msg_def rule_msg_def docker_missing_msg_def visit_msg_def stopping_msg_def
  creating_dir_msg_def starting_msg_def starting_up_msg_def admin_ui_msg_def
  api_docs_msg_def data_dir_msg_def view_logs_msg_def to_stop_msg_def waiting_msg_def
  running_msg_def went_wrong_msg_def
  rocket_def cross_def warning_def folder_def whale_def check_mark_def globe_def book_def
  hourglass_def CONTAINER_NAME_def PORT_def DATA_DIR_def

lemma is_docker_run_argv [simp]:
  "\<not> is_docker_run (Exec command_v_argv q)"
  "\<not> is_docker_run (Exec docker_ps_a_argv q)"
  "\<not> is_docker_run (Exec docker_ps_argv q)"
  "\<not> is_docker_run (Exec grep_argv q)"
  "\<not> is_docker_run (Exec docker_stop_argv q)"
  "\<not> is_docker_run (Exec docker_rm_argv q)"
  "\<not> is_docker_run (Exec mkdir_argv q)"
  "\<not> is_docker_run (Exec sleep_argv q)"
  "is_docker_run (Exec docker_run_argv q)"
  by (simp_all add: argv_defs)

lemma argv_neq [simp]:
  "docker_stop_argv \<noteq> command_v_argv"
  "command_v_argv \<noteq> docker_stop_argv"
  "docker_stop_argv \<noteq> docker_ps_a_argv"
  "docker_ps_a_argv \<noteq> docker_stop_argv"
  "docker_stop_argv \<noteq> docker_ps_argv"
  "docker_ps_argv \<noteq> docker_stop_argv"
  "docker_stop_argv \<noteq> grep_argv"
  "grep_argv \<noteq> docker_stop_argv"
  "docker_stop_argv \<noteq> docker_rm_argv"
  "docker_stop_argv \<noteq> mkdir_argv"
  "mkdir_argv \<noteq> docker_stop_argv"
  "docker_stop_argv \<noteq> docker_run_argv"
  "docker_stop_argv \<noteq> sleep_argv"
  "sleep_argv \<noteq> docker_stop_argv"
  "docker_rm_argv \<noteq> command_v_argv"
  "command_v_argv \<noteq> docker_rm_argv"
  "docker_rm_argv \<noteq> docker_ps_a_argv"
  "docker_ps_a_argv \<noteq> docker_rm_argv"
  "docker_rm_argv \<noteq> docker_ps_argv"
  "docker_ps_argv \<noteq> docker_rm_argv"
  "docker_rm_argv \<noteq> grep_argv"
  "grep_argv \<noteq> docker_rm_argv"
  "docker_rm_argv \<noteq> docker_stop_argv"
  "docker_rm_argv \<noteq> mkdir_argv"
  "mkdir_argv \<noteq> docker_rm_argv"
  "docker_rm_argv \<noteq> docker_run_argv"
  "docker_rm_argv \<noteq> sleep_argv"
  "sleep_argv \<noteq> docker_rm_argv"
  "docker_run_argv \<noteq> command_v_argv"
  "command_v_argv \<noteq> docker_run_argv"
  "docker_run_argv \<noteq> docker_ps_a_argv"
  "docker_ps_a_argv \<noteq> docker_run_argv"
  "docker_run_argv \<noteq> docker_ps_argv"
  "docker_ps_argv \<noteq> docker_run_argv"
  "docker_run_argv \<noteq> grep_argv"
  "grep_argv \<noteq> docker_run_argv"
  "docker_run_argv \<noteq> docker_stop_argv"
  "docker_run_argv \<noteq> docker_rm_argv"
  "docker_run_argv \<noteq> mkdir_argv"
  "mkdir_argv \<noteq> docker_run_argv"
  "docker_run_argv \<noteq> sleep_argv"
  "sleep_argv \<noteq> docker_run_argv"
  by (simp_all add: argv_defs)

text \<open>A line that ends with the pattern is matched, so a container's name is.\<close>

lemma contains_self: "contains pat (pat @ r)"
proof (cases "pat @ r")
  case Nil
  then show ?thesis by simp
next
  case (Cons a l)
  have "take (length pat) (pat @ r) = pat" by simp
  then show ?thesis unfolding Cons by simp
qed

lemma contains_append: "contains pat l \<Longrightarrow> contains pat (xs @ l)"
  by (induction xs) auto

lemma named_is_listed:
  assumes "c \<in> set cs" and "cname c = pat"
  shows "grep_q pat (docker_ps cs)"
proof -
  have "contains pat (pat @ [])" by (rule contains_self)
  then have "contains pat (ps_line c)"
    using assms(2) unfolding ps_line_def
    by (metis append_Nil2 append_assoc contains_append)
  with assms(1) show ?thesis
    by (auto simp: grep_q_def docker_ps_def list_ex_iff)
qed

text \<open>The paths of the script, one lemma each: what is run and echoed, and the status.\<close>

lemma run_once: "length (docker_runs (fst (docker_setup h))) \<le> 1"
  by (simp add: docker_setup_def step_defs docker_runs_def del: is_docker_run.simps(2))

lemma missing_trace:
  "\<not> docker_installed h \<Longrightarrow>
   docker_setup h = (start_events @ [Echo docker_missing_msg, Echo visit_msg], 1)"
  by (simp add: docker_setup_def step_defs start_events_def)

lemma stop_trace:
  "docker_installed h \<Longrightarrow> grep_q CONTAINER_NAME (docker_ps (listed_all h)) \<Longrightarrow>
   stop_status h \<noteq> 0 \<Longrightarrow>
   docker_setup h =
     (start_events @ listing_events @ [Echo stopping_msg, Exec docker_stop_argv True],
      stop_status h)"
  by (simp add: docker_setup_def step_defs start_events_def listing_events_def)

lemma rm_trace:
  "docker_installed h \<Longrightarrow> grep_q CONTAINER_NAME (docker_ps (listed_all h)) \<Longrightarrow>
   stop_status h = 0 \<Longrightarrow> rm_status h \<noteq> 0 \<Longrightarrow>
   docker_setup h =
     (start_events @ listing_events @
        [Echo stopping_msg, Exec docker_stop_argv True, Exec docker_rm_argv True],
      rm_status h)"
  by (simp add: docker_setup_def step_defs start_events_def listing_events_def)

lemma mkdir_trace:
  "docker_installed h \<Longrightarrow>
   (grep_q CONTAINER_NAME (docker_ps (listed_all h)) \<longrightarrow>
      stop_status h = 0 \<and> rm_status h = 0) \<Longrightarrow>
   mkdir_status h \<noteq> 0 \<Longrightarrow>
   docker_setup h =
     (start_events @ listing_events @ removal_events h @
        [Echo creating_dir_msg, Exec mkdir_argv False],
      mkdir_status h)"
  by (auto simp: docker_setup_def step_defs start_events_def listing_events_def
      removal_events_def)

lemma run_trace:
  "docker_installed h \<Longrightarrow>
   (grep_q CONTAINER_NAME (docker_ps (listed_all h)) \<longrightarrow>
      stop_status h = 0 \<and> rm_status h = 0) \<Longrightarrow>
   mkdir_status h = 0 \<Longrightarrow> run_status h \<noteq> 0 \<Longrightarrow>
   docker_setup h =
     (start_events @ listing_events @ removal_events h @
        [Echo creating_dir_msg, Exec mkdir_argv False, Echo starting_msg,
         Exec docker_run_argv False],
      run_status h)"
  by (auto simp: docker_setup_def step_defs start_events_def listing_events_def
      removal_events_def)

lemma started_trace:
  "docker_installed h \<Longrightarrow>
   (grep_q CONTAINER_NAME (docker_ps (listed_all h)) \<longrightarrow>
      stop_status h = 0 \<and> rm_status h = 0) \<Longrightarrow>
   mkdir_status h = 0 \<Longrightarrow> run_status h = 0 \<Longrightarrow>
   docker_setup h =
     (start_events @ listing_events @ removal_events h @
        [Echo creating_dir_msg, Exec mkdir_argv False, Echo starting_msg,
         Exec docker_run_argv False] @
        announce_events @
        (if grep_q CONTAINER_NAME (docker_ps (listed_running h))
         then [Echo running_msg] else [Echo went_wrong_msg]),
      if grep_q CONTAINER_NAME (docker_ps (listed_running h)) then 0 else 1)"
  by (auto simp: docker_setup_def step_defs start_events_def listing_events_def
      removal_events_def announce_events_def)

text \<open>The two error messages are no other line of the script.\<close>

lemma error_msgs_distinct:
  "docker_missing_msg \<noteq> setting_up_msg"
  "docker_missing_msg \<noteq> rule_msg"
  "docker_missing_msg \<noteq> visit_msg"
  "docker_missing_msg \<noteq> stopping_msg"
  "docker_missing_msg \<noteq> creating_dir_msg"
  "docker_missing_msg \<noteq> starting_msg"
  "docker_missing_msg \<noteq> starting_up_msg"
  "docker_missing_msg \<noteq> admin_ui_msg"
  "docker_missing_msg \<noteq> api_docs_msg"
  "docker_missing_msg \<noteq> data_dir_msg"
  "docker_missing_msg \<noteq> view_logs_msg"
  "docker_missing_msg \<noteq> to_stop_msg"
  "docker_missing_msg \<noteq> waiting_msg"
  "docker_missing_msg \<noteq> running_msg"
  "docker_missing_msg \<noteq> []"
  "went_wrong_msg \<noteq> setting_up_msg"
  "went_wrong_msg \<noteq> rule_msg"
  "went_wrong_msg \<noteq> visit_msg"
  "went_wrong_msg \<noteq> stopping_msg"
  "went_wrong_msg \<noteq> creating_dir_msg"
  "went_wrong_msg \<noteq> starting_msg"
  "went_wrong_msg \<noteq> starting_up_msg"
  "went_wrong_msg \<noteq> admin_ui_msg"
  "went_wrong_msg \<noteq> api_docs_msg"
  "went_wrong_msg \<noteq> data_dir_msg"
  "went_wrong_msg \<noteq> view_logs_msg"
  "went_wrong_msg \<noteq> to_stop_msg"
  "went_wrong_msg \<noteq> waiting_msg"
  "went_wrong_msg \<noteq> running_msg"
  "went_wrong_msg \<noteq> []"
  "docker_missing_msg \<noteq> went_wrong_msg"
  "went_wrong_msg \<noteq> docker_missing_msg"
  by (simp_all add: msg_defs)

lemma error_printed_iff:
  "error_printed (fst (docker_setup h)) =
     (\<not> docker_installed h \<or>
      (grep_q CONTAINER_NAME (docker_ps (listed_all h)) \<longrightarrow>
         stop_status h = 0 \<and> rm_status h = 0) \<and>
      mkdir_status h = 0 \<and> run_status h = 0 \<and>
      \<not> grep_q CONTAINER_NAME (docker_ps (listed_running h)))"
  by (auto simp: docker_setup_def step_defs error_printed_def error_msgs_distinct)

lemma replace_path:
  assumes "docker_installed h" and "grep_q CONTAINER_NAME (docker_ps (listed_all h))"
  shows "Exec docker_stop_argv True \<in> set (fst (docker_setup h)) \<and>
     (stop_status h = 0 \<longrightarrow> Exec docker_rm_argv True \<in> set (fst (docker_setup h))) \<and>
     (Exec docker_run_argv False \<in> set (fst (docker_setup h)) \<longrightarrow>
        stop_status h = 0 \<and> rm_status h = 0 \<and>
        precedes (Exec docker_stop_argv True) (Exec docker_rm_argv True) (fst (docker_setup h)) \<and>
        precedes (Exec docker_rm_argv True) (Exec docker_run_argv False) (fst (docker_setup h)))"
  using assms by (simp add: docker_setup_def step_defs precedes_def)

text \<open>The helpers, by the shape of what they hand to the SDK.\<close>

lemma plain_delegate:
  "delegates_once (signInWithEmail email password e p) e p ''signInWithPassword''
     [Obj [(''email'', Str email), (''password'', Str password)]] [''data'', ''error'']"
  "delegates_once (signUpWithEmail email password e p) e p ''signUp''
     [Obj [(''email'', Str email), (''password'', Str password)]] [''data'', ''error'']"
  "delegates_once (signOut e p) e p ''signOut'' [] [''error'']"
  "delegates_once (updatePassword password e p) e p ''updateUser''
     [Obj [(''password'', Str password)]] [''data'', ''error'']"
  by (auto simp: delegates_once_def wrapper_defs outcome_defs split: option.splits sum.splits)

lemma redirecting_delegate:
  assumes "window_origin e = Some origin"
  shows "delegates_once (signInWithOAuth pr e p) e p ''signInWithOAuth''
       [Obj [(''provider'', Str (provider_str pr)),
             (''options'', Obj [(''redirectTo'', Str (origin @ ''/auth/callback''))])]]
       [''data'', ''error'']"
    and "delegates_once (resetPassword email e p) e p ''resetPasswordForEmail''
       [Str email, Obj [(''redirectTo'', Str (origin @ ''/auth/reset-password''))]]
       [''data'', ''error'']"
  using assms
  by (auto simp: delegates_once_def wrapper_defs outcome_defs split: option.splits sum.splits)

lemma no_window:
  "window_origin e = None \<Longrightarrow> needs_window w \<Longrightarrow>
   fst (invoke w e p) = Inl (ReferenceError ''window is not defined'') \<and>
   calls (snd (invoke w e p)) = calls p"
  by (cases w) (auto simp: wrapper_defs split: option.splits)

lemma plain_pass_through:
  "\<not> needs_window w \<Longrightarrow> w \<noteq> SignOut \<Longrightarrow> pass_through w e p"
  by (cases w) (auto simp: pass_through_def same_outcome_def wrapper_defs outcome_defs
      split: option.splits sum.splits)

lemma signOut_pass_through:
  "(\<forall>res. auth e (fst (createClient e p)) ''signOut'' [] = Inr res \<longrightarrow>
          get_prop res ''data'' = Undefined) \<Longrightarrow>
   pass_through SignOut e p"
  by (auto simp: pass_through_def same_outcome_def wrapper_defs outcome_defs
      split: option.splits sum.splits)

lemma redirecting_not_pass_through:
  "needs_window w \<Longrightarrow> \<not> pass_through w e p"
  by (cases w) (auto simp: pass_through_def wrapper_defs split: option.splits)

section \<open>The auth helpers: what is forwarded and what comes back\<close>

text \<open>
  Claim C1, as the spec words it: every helper takes the arguments of its SDK method,
  calls exactly that method and returns the method's result unchanged. This fails for
  \<^verbatim>\<open>signInWithOAuth\<close>, which hands the SDK a \<^verbatim>\<open>redirectTo\<close> option the caller
  never gave, and for \<^verbatim>\<open>signOut\<close> on an SDK whose response carries data, which is
  dropped.
\<close>

theorem oauth_and_signOut_not_pass_through:
  "\<not> pass_through (SignInWithOAuth Github) browser fresh \<and>
   \<not> pass_through SignOut chatty fresh"
  by (simp add: pass_through_def same_outcome_def wrapper_defs outcome_defs
      browser_def chatty_def fresh_def demo_auth_def)

text \<open>
  Claim C1, amended. Every helper makes exactly one SDK call, always the same method
  with an argument built from its own, and settles as that call settles: it rejects
  with the same value, or resolves to a new object whose \<^verbatim>\<open>data\<close> and
  \<^verbatim>\<open>error\<close> are read from the response. The calls are
  \<^verbatim>\<open>signInWithPassword({email, password})\<close>, \<^verbatim>\<open>signUp({email, password})\<close>,
  \<^verbatim>\<open>updateUser({password})\<close> and \<^verbatim>\<open>signOut()\<close>, whose helper returns the
  \<^verbatim>\<open>error\<close> only; in a browser,
  \<^verbatim>\<open>signInWithOAuth({provider, options: {redirectTo}})\<close> and
  \<^verbatim>\<open>resetPasswordForEmail(email, {redirectTo})\<close>, where \<^verbatim>\<open>redirectTo\<close> is
  \<^verbatim>\<open>window.location.origin\<close> followed by \<^verbatim>\<open>/auth/callback\<close> or
  \<^verbatim>\<open>/auth/reset-password\<close>. Where \<^verbatim>\<open>window\<close> is not defined these two reject
  with a \<^verbatim>\<open>ReferenceError\<close> and call nothing. So the email sign-in, the sign-up and
  the password update are pass-throughs, \<^verbatim>\<open>signOut\<close> is one when the response
  carries no data, and the two helpers that add the redirect address never are. No
  helper validates, retries or caches.
\<close>

theorem wrappers_delegate:
  "delegates_once (signInWithEmail email password e p) e p ''signInWithPassword''
     [Obj [(''email'', Str email), (''password'', Str password)]] [''data'', ''error''] \<and>
   delegates_once (signUpWithEmail email password e p) e p ''signUp''
     [Obj [(''email'', Str email), (''password'', Str password)]] [''data'', ''error''] \<and>
   delegates_once (updatePassword password e p) e p ''updateUser''
     [Obj [(''password'', Str password)]] [''data'', ''error''] \<and>
   delegates_once (signOut e p) e p ''signOut'' [] [''error''] \<and>
   (\<forall>origin. window_origin e = Some origin \<longrightarrow>
      delegates_once (signInWithOAuth pr e p) e p ''signInWithOAuth''
        [Obj [(''provider'', Str (provider_str pr)),
              (''options'', Obj [(''redirectTo'', Str (origin @ ''/auth/callback''))])]]
        [''data'', ''error''] \<and>
      delegates_once (resetPassword email e p) e p ''resetPasswordForEmail''
        [Str email, Obj [(''redirectTo'', Str (origin @ ''/auth/reset-password''))]]
        [''data'', ''error'']) \<and>
   (window_origin e = None \<and> needs_window w \<longrightarrow>
      fst (invoke w e p) = Inl (ReferenceError ''window is not defined'') \<and>
      calls (snd (invoke w e p)) = calls p) \<and>
   (\<not> needs_window w \<and> w \<noteq> SignOut \<longrightarrow> pass_through w e p) \<and>
   ((\<forall>res. auth e (fst (createClient e p)) ''signOut'' [] = Inr res \<longrightarrow>
           get_prop res ''data'' = Undefined) \<longrightarrow>
      pass_through SignOut e p) \<and>
   (needs_window w \<longrightarrow> \<not> pass_through w e p)"
  using plain_delegate(1) [where email = email and password = password and e = e and p = p]
    plain_delegate(2) [where email = email and password = password and e = e and p = p]
    plain_delegate(3) [where e = e and p = p]
    plain_delegate(4) [where password = password and e = e and p = p]
    redirecting_delegate(1) [where e = e and pr = pr and p = p]
    redirecting_delegate(2) [where e = e and email = email and p = p]
    no_window [where e = e and w = w and p = p]
    plain_pass_through [where w = w and e = e and p = p]
    signOut_pass_through [where e = e and p = p]
    redirecting_not_pass_through [where w = w and e = e and p = p]
  by blast

theorem wrappers_delegate_witness:
  "delegates_once (signInWithEmail ''ada@example.org'' ''s3cret'' browser fresh) browser fresh
     ''signInWithPassword''
     [Obj [(''email'', Str ''ada@example.org''), (''password'', Str ''s3cret'')]]
     [''data'', ''error''] \<and>
   calls (snd (signInWithEmail ''ada@example.org'' ''s3cret'' browser fresh)) =
     [(7, ''signInWithPassword'',
       [Obj [(''email'', Str ''ada@example.org''), (''password'', Str ''s3cret'')]])] \<and>
   fst (signInWithEmail ''ada@example.org'' ''s3cret'' browser fresh) =
     Inr [(''data'', Obj [(''user'', Str ''ada@example.org'')]), (''error'', Null)] \<and>
   window_origin browser = Some ''http://localhost:3000'' \<and>
   calls (snd (resetPassword ''ada@example.org'' browser fresh)) =
     [(7, ''resetPasswordForEmail'',
       [Str ''ada@example.org'',
        Obj [(''redirectTo'', Str ''http://localhost:3000/auth/reset-password'')]])] \<and>
   \<not> needs_window (UpdatePassword ''n3w'') \<and> UpdatePassword ''n3w'' \<noteq> SignOut \<and>
   pass_through (UpdatePassword ''n3w'') browser fresh \<and>
   auth browser (fst (createClient browser fresh)) ''signOut'' [] = Inr [(''error'', Null)] \<and>
   pass_through SignOut browser fresh \<and>
   window_origin server = None \<and> needs_window (ResetPassword ''ada@example.org'') \<and>
   fst (invoke (ResetPassword ''ada@example.org'') server fresh) =
     Inl (ReferenceError ''window is not defined'') \<and>
   calls (snd (invoke (ResetPassword ''ada@example.org'') server fresh)) = calls fresh \<and>
   \<not> pass_through (ResetPassword ''ada@example.org'') server fresh"
proof -
  have no_data:
    "\<forall>res. auth browser (fst (createClient browser fresh)) ''signOut'' [] = Inr res \<longrightarrow>
       get_prop res ''data'' = Undefined"
    by (simp add: browser_def demo_auth_def get_prop_def)
  have plain: "\<not> needs_window (UpdatePassword ''n3w'') \<and> UpdatePassword ''n3w'' \<noteq> SignOut"
    by simp
  have srv: "window_origin server = None \<and> needs_window (ResetPassword ''ada@example.org'')"
    by (simp add: server_def)
  have brw: "window_origin browser = Some ''http://localhost:3000''"
    by (simp add: browser_def)
  note a = wrappers_delegate [where email = "''ada@example.org''" and password = "''s3cret''"
      and e = browser and p = fresh and pr = Github and w = "UpdatePassword ''n3w''"]
  note b = wrappers_delegate [where email = "''ada@example.org''" and password = "''s3cret''"
      and e = server and p = fresh and pr = Github and w = "ResetPassword ''ada@example.org''"]
  have sign_in: "delegates_once (signInWithEmail ''ada@example.org'' ''s3cret'' browser fresh)
      browser fresh ''signInWithPassword''
      [Obj [(''email'', Str ''ada@example.org''), (''password'', Str ''s3cret'')]]
      [''data'', ''error'']"
    using a by blast
  have reset: "delegates_once (resetPassword ''ada@example.org'' browser fresh) browser fresh
      ''resetPasswordForEmail''
      [Str ''ada@example.org'',
       Obj [(''redirectTo'', Str (''http://localhost:3000'' @ ''/auth/reset-password''))]]
      [''data'', ''error'']"
    using a brw by blast
  have pt: "pass_through (UpdatePassword ''n3w'') browser fresh \<and>
      pass_through SignOut browser fresh"
    using a plain no_data by blast
  have nw: "fst (invoke (ResetPassword ''ada@example.org'') server fresh) =
        Inl (ReferenceError ''window is not defined'') \<and>
      calls (snd (invoke (ResetPassword ''ada@example.org'') server fresh)) = calls fresh \<and>
      \<not> pass_through (ResetPassword ''ada@example.org'') server fresh"
    using b srv by blast
  have c1: "calls (snd (signInWithEmail ''ada@example.org'' ''s3cret'' browser fresh)) =
      [(7, ''signInWithPassword'',
        [Obj [(''email'', Str ''ada@example.org''), (''password'', Str ''s3cret'')]])]"
    using sign_in by (simp add: delegates_once_def createClient_def browser_def fresh_def)
  have c2: "fst (signInWithEmail ''ada@example.org'' ''s3cret'' browser fresh) =
      Inr [(''data'', Obj [(''user'', Str ''ada@example.org'')]), (''error'', Null)]"
    using sign_in
    by (simp add: delegates_once_def createClient_def browser_def fresh_def demo_auth_def
        get_prop_def)
  have c3: "calls (snd (resetPassword ''ada@example.org'' browser fresh)) =
      [(7, ''resetPasswordForEmail'',
        [Str ''ada@example.org'',
         Obj [(''redirectTo'', Str ''http://localhost:3000/auth/reset-password'')]])]"
    using reset by (simp add: delegates_once_def createClient_def browser_def fresh_def)
  have so: "auth browser (fst (createClient browser fresh)) ''signOut'' [] =
      Inr [(''error'', Null)]"
    by (simp add: browser_def demo_auth_def)
  from sign_in c1 c2 brw c3 plain pt so srv nw show ?thesis by blast
qed

text \<open>
  Claim C2. Every helper makes its SDK call, except the two that read
  \<^verbatim>\<open>window\<close> where it is not defined, which call nothing. The outcome of the call
  decides the helper's: a rejection of the SDK's promise is the rejection of the
  helper's, with the same value, and a response is answered by an object whose
  \<^verbatim>\<open>error\<close> is the response's \<^verbatim>\<open>error\<close>. Nothing is caught, rewritten or
  classified.
\<close>

theorem sdk_error_surfaced_unchanged:
  "(if needs_window w \<and> window_origin e = None
    then calls (snd (invoke w e p)) = calls p \<and>
         fst (invoke w e p) = Inl (ReferenceError ''window is not defined'')
    else (\<exists>a. calls (snd (invoke w e p)) =
                 calls p @ [(fst (createClient e p), sdk_method w, a)] \<and>
              (case auth e (fst (createClient e p)) (sdk_method w) a of
                 Inl x \<Rightarrow> fst (invoke w e p) = Inl x
               | Inr res \<Rightarrow>
                   (\<exists>obj. fst (invoke w e p) = Inr obj \<and>
                          get_prop obj ''error'' = get_prop res ''error''))))"
  by (cases w) (auto simp: wrapper_defs outcome_defs split: option.splits sum.splits)

theorem sdk_error_surfaced_unchanged_witness:
  "calls (snd (invoke (SignInWithEmail ''ada@example.org'' ''guess'') browser fresh)) =
     [(7, ''signInWithPassword'',
       [Obj [(''email'', Str ''ada@example.org''), (''password'', Str ''guess'')]])] \<and>
   auth browser 7 ''signInWithPassword''
       [Obj [(''email'', Str ''ada@example.org''), (''password'', Str ''guess'')]] =
     Inr [(''data'', Null), (''error'', Obj [(''message'', Str ''Invalid login credentials'')])] \<and>
   (\<exists>obj. fst (invoke (SignInWithEmail ''ada@example.org'' ''guess'') browser fresh) = Inr obj \<and>
          get_prop obj ''error'' = Obj [(''message'', Str ''Invalid login credentials'')]) \<and>
   auth browser 7 ''updateUser'' [Obj [(''password'', Str ''n3w'')]] =
     Inl (Thrown (Str ''fetch failed'')) \<and>
   fst (invoke (UpdatePassword ''n3w'') browser fresh) = Inl (Thrown (Str ''fetch failed'')) \<and>
   needs_window (SignInWithOAuth Github) \<and> window_origin server = None \<and>
   calls (snd (invoke (SignInWithOAuth Github) server fresh)) = calls fresh"
  using sdk_error_surfaced_unchanged [of "SignInWithEmail ''ada@example.org'' ''guess''"
      browser fresh]
    sdk_error_surfaced_unchanged [of "UpdatePassword ''n3w''" browser fresh]
    sdk_error_surfaced_unchanged [of "SignInWithOAuth Github" server fresh]
  by (simp add: wrapper_defs outcome_defs browser_def server_def fresh_def demo_auth_def)

text \<open>
  Claim C4. One invocation of a helper adds at most one SDK call to those already made
  and settles (the helpers are total functions); the home page makes none.
\<close>

theorem at_most_one_sdk_call:
  "(\<exists>new. calls (snd (invoke w e p)) = calls p @ new \<and> length new \<le> 1) \<and>
   calls (snd (Home p)) = calls p"
  by (cases w) (auto simp: wrapper_defs Home_def split: option.splits)

text \<open>
  Claim C5. \<^verbatim>\<open>Home\<close> returns the same tree whatever the state of the process, leaves
  that state as it found it, and its tree has exactly two anchors, to \<^verbatim>\<open>/login\<close>
  and to \<^verbatim>\<open>https://github.com\<close>.
\<close>

theorem home_is_static:
  "fst (Home p) = fst (Home q) \<and> snd (Home p) = p \<and>
   links (fst (Home p)) = [Str ''/login'', Str ''https://github.com'']"
  by (simp add: Home_def get_prop_def)





text \<open>
  Claim C10. A provider is one of google, github and discord. In a browser
  \<^verbatim>\<open>signInWithOAuth\<close> and \<^verbatim>\<open>resetPassword\<close> hand the SDK the caller's argument and
  a \<^verbatim>\<open>redirectTo\<close> made of \<^verbatim>\<open>window.location.origin\<close> and a fixed path, which
  the caller did not give: what the SDK receives is the caller's arguments followed by
  that address. Where \<^verbatim>\<open>window\<close> is not defined both reject with a
  \<^verbatim>\<open>ReferenceError\<close> before any call.
\<close>

theorem oauth_and_reset_add_redirect:
  "(pr = Google \<or> pr = Github \<or> pr = Discord) \<and>
   provider_str pr \<in> {''google'', ''github'', ''discord''} \<and>
   (\<forall>origin. window_origin e = Some origin \<longrightarrow>
      calls (snd (signInWithOAuth pr e p)) =
        calls p @
          [(fst (createClient e p), ''signInWithOAuth'',
            [Obj [(''provider'', Str (provider_str pr)),
                  (''options'', Obj [(''redirectTo'', Str (origin @ ''/auth/callback''))])]])] \<and>
      concat (map leaves
          [Obj [(''provider'', Str (provider_str pr)),
                (''options'', Obj [(''redirectTo'', Str (origin @ ''/auth/callback''))])]]) =
        wrapper_args (SignInWithOAuth pr) @ [Str (origin @ ''/auth/callback'')] \<and>
      calls (snd (resetPassword email e p)) =
        calls p @
          [(fst (createClient e p), ''resetPasswordForEmail'',
            wrapper_args (ResetPassword email) @
              [Obj [(''redirectTo'', Str (origin @ ''/auth/reset-password''))]])]) \<and>
   (window_origin e = None \<longrightarrow>
      fst (signInWithOAuth pr e p) = Inl (ReferenceError ''window is not defined'') \<and>
      calls (snd (signInWithOAuth pr e p)) = calls p \<and>
      fst (resetPassword email e p) = Inl (ReferenceError ''window is not defined'') \<and>
      calls (snd (resetPassword email e p)) = calls p)"
  by (cases pr) (auto simp: wrapper_defs split: option.splits)

theorem oauth_and_reset_add_redirect_witness:
  "window_origin browser = Some ''http://localhost:3000'' \<and>
   calls (snd (signInWithOAuth Github browser fresh)) =
     [(7, ''signInWithOAuth'',
       [Obj [(''provider'', Str ''github''),
             (''options'',
              Obj [(''redirectTo'', Str ''http://localhost:3000/auth/callback'')])]])] \<and>
   calls (snd (resetPassword ''ada@example.org'' browser fresh)) =
     [(7, ''resetPasswordForEmail'',
       [Str ''ada@example.org'',
        Obj [(''redirectTo'', Str ''http://localhost:3000/auth/reset-password'')]])] \<and>
   window_origin server = None \<and>
   fst (signInWithOAuth Github server fresh) = Inl (ReferenceError ''window is not defined'') \<and>
   calls (snd (signInWithOAuth Github server fresh)) = []"
  using oauth_and_reset_add_redirect [of Github browser fresh "''ada@example.org''"]
    oauth_and_reset_add_redirect [of Github server fresh "''ada@example.org''"]
  by (simp add: wrapper_defs browser_def server_def fresh_def)

section \<open>The Docker bootstrap script: failures and the earlier container\<close>

text \<open>
  Claim C3, as the spec words it: every failure path ends by printing an error message
  and exiting with a nonzero status. Where a container of the PocketBase image runs
  under another name, the listing matches, \<^verbatim>\<open>docker stop pocketbase\<close> fails and
  \<^verbatim>\<open>set -e\<close> ends the script with status 1 right after that command, whose own
  output goes to \<^verbatim>\<open>/dev/null\<close>: the script has echoed its banner and the notice
  that it stops the container, and no error message.
\<close>

theorem failed_stop_exits_silently:
  "snd (docker_setup stale_host) = 1 \<and>
   last (fst (docker_setup stale_host)) = Exec docker_stop_argv True \<and>
   echoed (fst (docker_setup stale_host)) = [setting_up_msg, rule_msg, stopping_msg] \<and>
   \<not> error_printed (fst (docker_setup stale_host))"
  by (simp add: docker_setup_def step_defs stale_host_def
      error_printed_def grep_q_def docker_ps_def ps_line_def msg_defs)

text \<open>
  Claim C3, amended. Every execution runs \<^verbatim>\<open>docker run\<close> at most once, and the
  script is the same straight line on every machine, cut where it ends. Without Docker
  it prints its error message and exits with status 1, having run nothing else. With
  Docker, \<^verbatim>\<open>docker stop\<close> and \<^verbatim>\<open>docker rm\<close> run when a line of the
  \<^verbatim>\<open>docker ps -a\<close> listing holds \<^verbatim>\<open>pocketbase\<close>, then \<^verbatim>\<open>mkdir\<close> and
  \<^verbatim>\<open>docker run\<close>; the first of these four that fails is the last thing the script
  does: it exits with that command's status, runs and echoes nothing more, and has
  printed no error message of its own. When all succeed, the script exits with status
  1 after its second error message if no line of the \<^verbatim>\<open>docker ps\<close> listing holds
  \<^verbatim>\<open>pocketbase\<close>, and with status 0 after its success message if one does. No
  command is retried and nothing is undone.
\<close>

theorem docker_setup_failure_paths:
  "length (docker_runs (fst (docker_setup h))) \<le> 1 \<and>
   (\<not> docker_installed h \<longrightarrow>
      docker_setup h = (start_events @ [Echo docker_missing_msg, Echo visit_msg], 1)) \<and>
   (docker_installed h \<and> grep_q CONTAINER_NAME (docker_ps (listed_all h)) \<and>
    stop_status h \<noteq> 0 \<longrightarrow>
      docker_setup h =
        (start_events @ listing_events @ [Echo stopping_msg, Exec docker_stop_argv True],
         stop_status h)) \<and>
   (docker_installed h \<and> grep_q CONTAINER_NAME (docker_ps (listed_all h)) \<and>
    stop_status h = 0 \<and> rm_status h \<noteq> 0 \<longrightarrow>
      docker_setup h =
        (start_events @ listing_events @
           [Echo stopping_msg, Exec docker_stop_argv True, Exec docker_rm_argv True],
         rm_status h)) \<and>
   (docker_installed h \<and>
    (grep_q CONTAINER_NAME (docker_ps (listed_all h)) \<longrightarrow>
       stop_status h = 0 \<and> rm_status h = 0) \<longrightarrow>
      (mkdir_status h \<noteq> 0 \<longrightarrow>
         docker_setup h =
           (start_events @ listing_events @ removal_events h @
              [Echo creating_dir_msg, Exec mkdir_argv False],
            mkdir_status h)) \<and>
      (mkdir_status h = 0 \<and> run_status h \<noteq> 0 \<longrightarrow>
         docker_setup h =
           (start_events @ listing_events @ removal_events h @
              [Echo creating_dir_msg, Exec mkdir_argv False, Echo starting_msg,
               Exec docker_run_argv False],
            run_status h)) \<and>
      (mkdir_status h = 0 \<and> run_status h = 0 \<longrightarrow>
         docker_setup h =
           (start_events @ listing_events @ removal_events h @
              [Echo creating_dir_msg, Exec mkdir_argv False, Echo starting_msg,
               Exec docker_run_argv False] @
              announce_events @
              (if grep_q CONTAINER_NAME (docker_ps (listed_running h))
               then [Echo running_msg] else [Echo went_wrong_msg]),
            if grep_q CONTAINER_NAME (docker_ps (listed_running h)) then 0 else 1))) \<and>
   error_printed (fst (docker_setup h)) =
     (\<not> docker_installed h \<or>
      (grep_q CONTAINER_NAME (docker_ps (listed_all h)) \<longrightarrow>
         stop_status h = 0 \<and> rm_status h = 0) \<and>
      mkdir_status h = 0 \<and> run_status h = 0 \<and>
      \<not> grep_q CONTAINER_NAME (docker_ps (listed_running h)))"
  using run_once [of h] missing_trace [of h] stop_trace [of h] rm_trace [of h]
    mkdir_trace [of h] run_trace [of h] started_trace [of h] error_printed_iff [of h]
  by blast

theorem docker_setup_failure_paths_witness:
  "\<not> docker_installed bare_host \<and>
   docker_setup bare_host = (start_events @ [Echo docker_missing_msg, Echo visit_msg], 1) \<and>
   docker_installed stale_host \<and> grep_q CONTAINER_NAME (docker_ps (listed_all stale_host)) \<and>
   stop_status stale_host = 1 \<and>
   docker_setup stale_host =
     (start_events @ listing_events @ [Echo stopping_msg, Exec docker_stop_argv True], 1) \<and>
   docker_installed busy_host \<and> mkdir_status busy_host = 0 \<and> run_status busy_host = 125 \<and>
   docker_setup busy_host =
     (start_events @ listing_events @
        [Echo stopping_msg, Exec docker_stop_argv True, Exec docker_rm_argv True,
         Echo creating_dir_msg, Exec mkdir_argv False, Echo starting_msg,
         Exec docker_run_argv False],
      125) \<and>
   docker_installed crashed_host \<and> run_status crashed_host = 0 \<and>
   \<not> grep_q CONTAINER_NAME (docker_ps (listed_running crashed_host)) \<and>
   docker_setup crashed_host =
     (start_events @ listing_events @
        [Echo stopping_msg, Exec docker_stop_argv True, Exec docker_rm_argv True,
         Echo creating_dir_msg, Exec mkdir_argv False, Echo starting_msg,
         Exec docker_run_argv False] @
        announce_events @ [Echo went_wrong_msg],
      1)"
proof -
  have bare: "\<not> docker_installed bare_host"
    by (simp add: bare_host_def)
  have stale: "docker_installed stale_host"
      "grep_q CONTAINER_NAME (docker_ps (listed_all stale_host))"
      "stop_status stale_host = 1"
    by (simp_all add: stale_host_def grep_q_def docker_ps_def ps_line_def CONTAINER_NAME_def)
  have used: "grep_q CONTAINER_NAME (docker_ps (listed_all used_host))"
    by (simp add: used_host_def grep_q_def docker_ps_def ps_line_def CONTAINER_NAME_def)
  have busy: "docker_installed busy_host"
      "grep_q CONTAINER_NAME (docker_ps (listed_all busy_host))"
      "stop_status busy_host = 0" "rm_status busy_host = 0"
      "mkdir_status busy_host = 0" "run_status busy_host = 125"
    using used by (simp_all add: busy_host_def crashed_host_def used_host_def)
  have crashed: "docker_installed crashed_host"
      "grep_q CONTAINER_NAME (docker_ps (listed_all crashed_host))"
      "stop_status crashed_host = 0" "rm_status crashed_host = 0"
      "mkdir_status crashed_host = 0" "run_status crashed_host = 0"
    using used by (simp_all add: crashed_host_def used_host_def)
  have gone: "\<not> grep_q CONTAINER_NAME (docker_ps (listed_running crashed_host))"
    by (simp add: crashed_host_def used_host_def grep_q_def docker_ps_def CONTAINER_NAME_def)
  have t1: "docker_setup bare_host =
      (start_events @ [Echo docker_missing_msg, Echo visit_msg], 1)"
    using docker_setup_failure_paths [of bare_host] bare by blast
  have t2: "docker_setup stale_host =
      (start_events @ listing_events @ [Echo stopping_msg, Exec docker_stop_argv True], 1)"
    using docker_setup_failure_paths [of stale_host] stale by simp
  have t3: "docker_setup busy_host =
      (start_events @ listing_events @ removal_events busy_host @
         [Echo creating_dir_msg, Exec mkdir_argv False, Echo starting_msg,
          Exec docker_run_argv False],
       run_status busy_host)"
    using docker_setup_failure_paths [of busy_host] busy by simp
  have t4: "docker_setup crashed_host =
      (start_events @ listing_events @ removal_events crashed_host @
         [Echo creating_dir_msg, Exec mkdir_argv False, Echo starting_msg,
          Exec docker_run_argv False] @
         announce_events @ [Echo went_wrong_msg],
       1)"
    using docker_setup_failure_paths [of crashed_host] crashed gone by simp
  show ?thesis
    using bare stale busy(1,5,6) crashed(1,6) gone t1 t2 t3 t4
    by (simp add: removal_events_def busy(2) crashed(2))
qed

text \<open>
  Claim C8. With Docker installed and a container named \<^verbatim>\<open>pocketbase\<close> in the
  listing, running or not, the script runs \<^verbatim>\<open>docker stop pocketbase\<close>, then
  \<^verbatim>\<open>docker rm pocketbase\<close> once the stop has succeeded, and it reaches
  \<^verbatim>\<open>docker run\<close> only after both have run and succeeded.
\<close>

theorem existing_container_replaced:
  assumes "docker_installed h" and "c \<in> set (listed_all h)" and "cname c = CONTAINER_NAME"
  shows "Exec docker_stop_argv True \<in> set (fst (docker_setup h)) \<and>
     (stop_status h = 0 \<longrightarrow> Exec docker_rm_argv True \<in> set (fst (docker_setup h))) \<and>
     (Exec docker_run_argv False \<in> set (fst (docker_setup h)) \<longrightarrow>
        stop_status h = 0 \<and> rm_status h = 0 \<and>
        precedes (Exec docker_stop_argv True) (Exec docker_rm_argv True)
          (fst (docker_setup h)) \<and>
        precedes (Exec docker_rm_argv True) (Exec docker_run_argv False)
          (fst (docker_setup h)))"
  using assms(1) named_is_listed [OF assms(2,3)] by (rule replace_path)

theorem existing_container_replaced_witness:
  "docker_installed used_host \<and> hd (listed_all used_host) \<in> set (listed_all used_host) \<and>
   cname (hd (listed_all used_host)) = CONTAINER_NAME \<and> stop_status used_host = 0 \<and>
   Exec docker_stop_argv True \<in> set (fst (docker_setup used_host)) \<and>
   Exec docker_rm_argv True \<in> set (fst (docker_setup used_host)) \<and>
   Exec docker_run_argv False \<in> set (fst (docker_setup used_host)) \<and>
   precedes (Exec docker_stop_argv True) (Exec docker_rm_argv True)
     (fst (docker_setup used_host)) \<and>
   precedes (Exec docker_rm_argv True) (Exec docker_run_argv False)
     (fst (docker_setup used_host))"
proof -
  have a: "docker_installed used_host"
    by (simp add: used_host_def)
  have b: "hd (listed_all used_host) \<in> set (listed_all used_host)"
    by (simp add: used_host_def)
  have c: "cname (hd (listed_all used_host)) = CONTAINER_NAME"
    by (simp add: used_host_def CONTAINER_NAME_def)
  have d: "stop_status used_host = 0"
    by (simp add: used_host_def)
  have e: "Exec docker_run_argv False \<in> set (fst (docker_setup used_host))"
    using a named_is_listed [OF b c] d
    by (simp add: docker_setup_def step_defs used_host_def)
  show ?thesis
    using existing_container_replaced [OF a b c] a b c d e by simp
qed

end
